theory Spec2Isabelle
  imports Main
begin

section \<open>Data model (src/types)\<close>

text \<open>
  Strings are lists of \<^typ>\<open>char\<close>; a character stands for one code unit in the range
  0..255. An optional field of an interface is an \<^typ>\<open>'a option\<close>, with \<open>None\<close> for
  an absent (undefined) field.
\<close>

text \<open>
  The source's \<open>number\<close> type (the builder's numeric inputs top, page and count, and
  numeric condition values): \<open>NaN\<close>, the two infinities, and the integers below
  \<open>2^53\<close> in magnitude. Each of these integers is a value of the number type, and its
  text form is its decimal numeral. Fractions and larger numbers are not represented.
  The source computes nothing with numbers: it compares them, tests their truthiness and
  converts them to text.
\<close>

typedef safeint = "{n :: int. - 9007199254740992 < n \<and> n < 9007199254740992}"
  morphisms intValue SafeInt
  by (rule exI [of _ 0]) simp

datatype number = Num safeint | NaN | PosInfinity | NegInfinity

text \<open>The number with the integer value \<open>n\<close>, for \<open>n\<close> below \<open>2^53\<close> in magnitude.\<close>

definition num :: "int \<Rightarrow> number" where
  "num n = Num (SafeInt n)"

text \<open>
  \<open>x < y\<close> on numbers; \<open>x > y\<close> is \<open>y < x\<close>. Every comparison with \<open>NaN\<close> is false.
\<close>

fun numLess :: "number \<Rightarrow> number \<Rightarrow> bool" where
  "numLess (Num a) (Num b) = (intValue a < intValue b)"
| "numLess (Num a) PosInfinity = True"
| "numLess NegInfinity (Num b) = True"
| "numLess NegInfinity PosInfinity = True"
| "numLess _ _ = False"

text \<open>\<open>if (n)\<close> on a number: zero and \<open>NaN\<close> are falsy.\<close>

fun truthyNumber :: "number \<Rightarrow> bool" where
  "truthyNumber (Num a) = (intValue a \<noteq> 0)"
| "truthyNumber NaN = False"
| "truthyNumber PosInfinity = True"
| "truthyNumber NegInfinity = True"

text \<open>
  \<open>value?: any\<close> of a condition: absent/undefined, null, or a scalar (boolean, number,
  string) on which \<open>toString()\<close> is defined.
\<close>

datatype scalar = JBool bool | JNumber number | JString string

datatype jsvalue = JUndefined | JNull | JScalar scalar

text \<open>The literal types \<open>"and" | "or"\<close> and \<open>"inner" | "outer"\<close>.\<close>

datatype GroupType = And | Or

datatype LinkType = Inner | Outer

text \<open>
  \<open>FilterOperator\<close>, \<open>OrderType\<close> and \<open>AggregateType\<close> are kept as strings: they are the
  strings the validators receive and hand back.
\<close>

record FilterCondition =
  cond_attribute :: string
  cond_operator :: string
  cond_value :: jsvalue

text \<open>
  \<open>conditions: (FilterCondition | FilterGroup)[]\<close>: an entry is a condition (\<open>Inl\<close>) or a
  nested group (\<open>Inr\<close>, the entries that have a \<open>type\<close> key).
\<close>

datatype FilterGroup =
  FilterGroup (fg_type: GroupType) (fg_conditions: "(FilterCondition + FilterGroup) list")

record OrderBy =
  ord_attribute :: string
  ord_order :: string

text \<open>
  \<open>Attribute | AggregateAttribute\<close>: an aggregate attribute is an attribute that has the
  \<open>aggregate\<close> key.
\<close>

record Attribute =
  attr_name :: string
  attr_alias :: "string option"
  attr_aggregate :: "string option"

datatype LinkEntity =
  LinkEntity (link_name: string) (link_from: string) (link_to: string)
    (link_alias: "string option") (link_linkType: "LinkType option")
    (link_attributes: "Attribute list") (link_filters: "FilterGroup option")
    (link_links: "LinkEntity list option")

record FetchQuery =
  q_entity :: string
  q_attributes :: "Attribute list"
  q_filters :: "FilterGroup option"
  q_orders :: "OrderBy list option"
  q_links :: "LinkEntity list option"
  q_distinct :: "bool option"
  q_top :: "number option"
  q_page :: "number option"
  q_count :: "number option"

section \<open>Errors (src/errors)\<close>

text \<open>\<open>ValidationError message field\<close> and \<open>QueryBuildError message\<close>.\<close>

datatype error = ValidationError string string | QueryBuildError string

section \<open>Text forms of numbers and booleans\<close>

text \<open>The decimal digits of a natural number, most significant first.\<close>

definition digitChar :: "nat \<Rightarrow> char" where
  "digitChar d = ''0123456789'' ! d"

fun digits :: "nat \<Rightarrow> string" where
  "digits n =
     (if n < 10 then [digitChar n]
      else digits (n div 10) @ [digitChar (n mod 10)])"

declare digits.simps [simp del]

fun numToString :: "number \<Rightarrow> string" where
  "numToString (Num a) =
     (if intValue a < 0 then ''-'' @ digits (nat (- intValue a))
      else digits (nat (intValue a)))"
| "numToString NaN = ''NaN''"
| "numToString PosInfinity = ''Infinity''"
| "numToString NegInfinity = ''-Infinity''"

definition boolToString :: "bool \<Rightarrow> string" where
  "boolToString b = (if b then ''true'' else ''false'')"

fun toString :: "scalar \<Rightarrow> string" where
  "toString (JBool b) = boolToString b"
| "toString (JNumber n) = numToString n"
| "toString (JString s) = s"

section \<open>Validator (src/validators/index.ts)\<close>

definition MAX_PAGE_SIZE :: number where "MAX_PAGE_SIZE = num 5000"
definition MAX_TOP_SIZE :: number where "MAX_TOP_SIZE = num 5000"
definition MIN_PAGE_SIZE :: number where "MIN_PAGE_SIZE = num 1"
definition MIN_TOP_SIZE :: number where "MIN_TOP_SIZE = num 1"

definition validOperators :: "string list" where
  "validOperators =
     [''eq'', ''ne'', ''gt'', ''ge'', ''lt'', ''le'', ''like'', ''not-like'',
      ''in'', ''not-in'', ''null'', ''not-null'', ''on'', ''on-or-before'',
      ''on-or-after'', ''yesterday'', ''today'', ''tomorrow'',
      ''last-seven-days'', ''next-seven-days'', ''last-week'',
      ''this-week'', ''next-week'', ''last-month'', ''this-month'',
      ''next-month'', ''last-year'', ''this-year'', ''next-year'']"

definition validateFilterOperator :: "string \<Rightarrow> error + string" where
  "validateFilterOperator operator =
     (if operator \<notin> set validOperators
      then Inl (ValidationError (''Invalid filter operator: '' @ operator) ''operator'')
      else Inr operator)"

definition validOrders :: "string list" where
  "validOrders = [''asc'', ''desc'']"

definition validateOrderType :: "string \<Rightarrow> error + string" where
  "validateOrderType order =
     (if order \<notin> set validOrders
      then Inl (ValidationError (''Invalid order type: '' @ order) ''order'')
      else Inr order)"

definition validAggregates :: "string list" where
  "validAggregates = [''count'', ''countcolumn'', ''sum'', ''avg'', ''min'', ''max'']"

definition validateAggregateType :: "string \<Rightarrow> error + string" where
  "validateAggregateType aggregate =
     (if aggregate \<notin> set validAggregates
      then Inl (ValidationError (''Invalid aggregate type: '' @ aggregate) ''aggregate'')
      else Inr aggregate)"

text \<open>
  \<open>String.prototype.trim\<close> strips white space and line terminators from both ends; in
  the code-unit range 0..255 these are TAB, LF, VT, FF, CR, SPACE and NBSP.
\<close>

definition isWhiteSpace :: "char \<Rightarrow> bool" where
  "isWhiteSpace c =
     (c \<in> set [CHR 0x09, CHR 0x0A, CHR 0x0B, CHR 0x0C, CHR 0x0D, CHR 0x20, CHR 0xA0])"

definition trim :: "string \<Rightarrow> string" where
  "trim s = rev (dropWhile isWhiteSpace (rev (dropWhile isWhiteSpace s)))"

text \<open>
  \<open>!attribute || typeof attribute !== 'string' || attribute.trim() === ''\<close> on a string
  argument: the empty string is falsy, and the \<open>typeof\<close> test is false.
\<close>

definition validateAttributeName :: "string \<Rightarrow> error + unit" where
  "validateAttributeName attribute =
     (if attribute = [] \<or> trim attribute = []
      then Inl (ValidationError ''Attribute name cannot be empty'' ''attribute'')
      else Inr ())"

definition validateEntityName :: "string \<Rightarrow> error + unit" where
  "validateEntityName entityName =
     (if entityName = [] \<or> trim entityName = []
      then Inl (ValidationError ''Entity name cannot be empty'' ''entityName'')
      else Inr ())"

definition validatePagination :: "number \<Rightarrow> number \<Rightarrow> error + unit" where
  "validatePagination page count =
     (if numLess page MIN_PAGE_SIZE
      then Inl (ValidationError
             (''Page number must be greater than '' @ numToString MIN_PAGE_SIZE) ''page'')
      else if numLess count MIN_PAGE_SIZE \<or> numLess MAX_PAGE_SIZE count
      then Inl (ValidationError
             (''Page count must be between '' @ numToString MIN_PAGE_SIZE @ '' and ''
                @ numToString MAX_PAGE_SIZE) ''count'')
      else Inr ())"

definition validateTop :: "number \<Rightarrow> error + unit" where
  "validateTop top_value =
     (if numLess top_value MIN_TOP_SIZE \<or> numLess MAX_TOP_SIZE top_value
      then Inl (ValidationError
             (''Top value must be between '' @ numToString MIN_TOP_SIZE @ '' and ''
                @ numToString MAX_TOP_SIZE) ''top'')
      else Inr ())"

section \<open>XML renderer (src/builders/xml-builder.ts)\<close>

text \<open>\<open>value.replace(/c/g, r)\<close> for a one-character pattern \<open>c\<close>.\<close>

definition replaceAll :: "char \<Rightarrow> string \<Rightarrow> string \<Rightarrow> string" where
  "replaceAll c r s = concat (map (\<lambda>x. if x = c then r else [x]) s)"

definition escapeXml :: "string \<Rightarrow> string" where
  "escapeXml v =
     replaceAll (CHR 0x27) ''&#39;''
       (replaceAll (CHR 0x22) ''&quot;''
          (replaceAll CHR ''>'' ''&gt;''
             (replaceAll CHR ''<'' ''&lt;''
                (replaceAll CHR ''&'' ''&amp;'' v))))"

text \<open>
  \<open>if (s)\<close> on an optional string: absent and the empty string are falsy. Likewise
  \<open>if (n)\<close> on an optional number is false for an absent number, for zero and for
  \<open>NaN\<close>, and \<open>if (b)\<close> on an optional boolean is true only for \<open>true\<close>; objects and
  arrays are truthy whenever present.
\<close>

definition truthyString :: "string option \<Rightarrow> bool" where
  "truthyString s = (case s of None \<Rightarrow> False | Some x \<Rightarrow> x \<noteq> [])"

definition groupTypeText :: "GroupType \<Rightarrow> string" where
  "groupTypeText t = (case t of And \<Rightarrow> ''and'' | Or \<Rightarrow> ''or'')"

definition linkTypeText :: "LinkType \<Rightarrow> string" where
  "linkTypeText t = (case t of Inner \<Rightarrow> ''inner'' | Outer \<Rightarrow> ''outer'')"

text \<open>The body of the attribute loops of \<open>buildAttributes\<close> and \<open>buildLinkEntity\<close>.\<close>

definition attributeStep :: "string \<Rightarrow> Attribute \<Rightarrow> string" where
  \<open>attributeStep xml0 attr =
     (let xml = xml0 @ ''<attribute'';
          xml = xml @ '' name="'' @ escapeXml (attr_name attr) @ ''"'';
          xml = (case attr_alias attr of
                   None \<Rightarrow> xml
                 | Some a \<Rightarrow> if a \<noteq> [] then xml @ '' alias="'' @ escapeXml a @ ''"'' else xml);
          xml = (case attr_aggregate attr of
                   None \<Rightarrow> xml
                 | Some g \<Rightarrow> xml @ '' aggregate="'' @ g @ ''"'');
          xml = xml @ ''/>''
      in xml)\<close>

definition buildAttributes :: "FetchQuery \<Rightarrow> string" where
  "buildAttributes query = foldl attributeStep [] (q_attributes query)"

definition buildCondition :: "FilterCondition \<Rightarrow> string" where
  \<open>buildCondition condition =
     (let xml = ''<condition'';
          xml = xml @ '' attribute="'' @ escapeXml (cond_attribute condition) @ ''"'';
          xml = xml @ '' operator="'' @ cond_operator condition @ ''"'';
          xml = (case cond_value condition of
                   JUndefined \<Rightarrow> xml
                 | JNull \<Rightarrow> xml
                 | JScalar v \<Rightarrow> xml @ '' value="'' @ escapeXml (toString v) @ ''"'');
          xml = xml @ ''/>''
      in xml)\<close>

fun buildFilter :: "FilterGroup \<Rightarrow> string" where
  \<open>buildFilter (FilterGroup t conditions) =
     foldl (\<lambda>xml condition. xml @
              (case condition of Inr g \<Rightarrow> buildFilter g | Inl c \<Rightarrow> buildCondition c))
       (''<filter type="'' @ groupTypeText t @ ''">'') conditions
     @ ''</filter>''\<close>

definition orderStep :: "string \<Rightarrow> OrderBy \<Rightarrow> string" where
  \<open>orderStep xml order =
     xml @ ''<order attribute="'' @ escapeXml (ord_attribute order) @ ''" descending="''
         @ boolToString (ord_order order = ''desc'') @ ''"/>''\<close>

definition buildOrders :: "OrderBy list \<Rightarrow> string" where
  "buildOrders orders = foldl orderStep [] orders"

fun buildLinkEntity :: "LinkEntity \<Rightarrow> string" where
  \<open>buildLinkEntity (LinkEntity name from_attr to_attr alias linkType attributes filters links) =
     (let xml = ''<link-entity'';
          xml = xml @ '' name="'' @ escapeXml name @ ''"'';
          xml = xml @ '' from="'' @ escapeXml from_attr @ ''"'';
          xml = xml @ '' to="'' @ escapeXml to_attr @ ''"'';
          xml = (case alias of
                   None \<Rightarrow> xml
                 | Some a \<Rightarrow> if a \<noteq> [] then xml @ '' alias="'' @ escapeXml a @ ''"'' else xml);
          xml = (case linkType of
                   None \<Rightarrow> xml
                 | Some t \<Rightarrow> xml @ '' link-type="'' @ linkTypeText t @ ''"'');
          xml = xml @ ''>'';
          xml = foldl attributeStep xml attributes;
          xml = (case filters of None \<Rightarrow> xml | Some f \<Rightarrow> xml @ buildFilter f);
          xml = (case links of
                   None \<Rightarrow> xml
                 | Some ls \<Rightarrow> foldl (\<lambda>xml nestedLink. xml @ buildLinkEntity nestedLink) xml ls);
          xml = xml @ ''</link-entity>''
      in xml)\<close>

definition buildLinks :: "LinkEntity list \<Rightarrow> string" where
  "buildLinks links = foldl (\<lambda>xml link. xml @ buildLinkEntity link) [] links"

text \<open>
  \<open>FetchXMLBuilder.build\<close>. Nothing in the body can throw on a model of the types above,
  so the \<open>catch\<close> branch (which would wrap the failure in a \<open>QueryBuildError\<close>) has no
  counterpart.
\<close>

definition build :: "FetchQuery \<Rightarrow> string" where
  \<open>build query =
     (let xml = ''<fetch'';
          xml = (if q_distinct query = Some True then xml @ '' distinct="true"'' else xml);
          xml = (case q_top query of
                   None \<Rightarrow> xml
                 | Some n \<Rightarrow>
                     if truthyNumber n then xml @ '' top="'' @ numToString n @ ''"'' else xml);
          xml = (case q_page query of
                   None \<Rightarrow> xml
                 | Some n \<Rightarrow>
                     if truthyNumber n then xml @ '' page="'' @ numToString n @ ''"'' else xml);
          xml = (case q_count query of
                   None \<Rightarrow> xml
                 | Some n \<Rightarrow>
                     if truthyNumber n then xml @ '' count="'' @ numToString n @ ''"'' else xml);
          xml = xml @ ''>'';
          xml = xml @ ''<entity name="'' @ q_entity query @ ''">'';
          xml = xml @ buildAttributes query;
          xml = (case q_filters query of None \<Rightarrow> xml | Some f \<Rightarrow> xml @ buildFilter f);
          xml = (case q_orders query of None \<Rightarrow> xml | Some os \<Rightarrow> xml @ buildOrders os);
          xml = (case q_links query of None \<Rightarrow> xml | Some ls \<Rightarrow> xml @ buildLinks ls);
          xml = xml @ ''</entity>'';
          xml = xml @ ''</fetch>''
      in xml)\<close>

section \<open>Entity builder (src/entities/base-entity.ts)\<close>

text \<open>
  A builder object: the \<open>entityName\<close> field that the concrete subclass declares, and the
  query the constructor creates. A method that returns \<open>this\<close> or throws is a function
  from the builder before the call to the outcome (\<open>Inl\<close> the error thrown, \<open>Inr\<close> a
  normal return) paired with the builder after the call. Each \<open>catch\<close> block logs and
  rethrows the error it caught; the logger is not modelled.
\<close>

record BaseEntity =
  entityName :: string
  query :: FetchQuery

text \<open>
  \<open>new Sub(arg)\<close> for a subclass \<open>Sub\<close> whose field initialiser is
  \<open>entityName = field\<close>: the constructor stores \<open>arg\<close> in the query, the initialiser
  sets the field.
\<close>

definition BaseEntity_new :: "string \<Rightarrow> string \<Rightarrow> BaseEntity" where
  "BaseEntity_new field arg =
     \<lparr>entityName = field,
      query = \<lparr>q_entity = arg, q_attributes = [], q_filters = None, q_orders = None,
               q_links = None, q_distinct = None, q_top = None, q_page = None,
               q_count = None\<rparr>\<rparr>"

text \<open>
  \<open>attributes.map(attr => { Validator.validateAttributeName(attr); return { name: attr } })\<close>:
  the names are validated from left to right, and the first failure ends the map.
\<close>

fun mapValidated :: "string list \<Rightarrow> error + Attribute list" where
  "mapValidated [] = Inr []"
| "mapValidated (attr # rest) =
     (case validateAttributeName attr of
        Inl e \<Rightarrow> Inl e
      | Inr _ \<Rightarrow>
          (case mapValidated rest of
             Inl e \<Rightarrow> Inl e
           | Inr newAttributes \<Rightarrow>
               Inr (\<lparr>attr_name = attr, attr_alias = None, attr_aggregate = None\<rparr>
                      # newAttributes)))"

definition BaseEntity_select :: "string list \<Rightarrow> BaseEntity \<Rightarrow> (error + unit) \<times> BaseEntity" where
  "BaseEntity_select attributes b =
     (case mapValidated attributes of
        Inl e \<Rightarrow> (Inl e, b)
      | Inr newAttributes \<Rightarrow>
          (Inr (), b\<lparr>query := (query b)\<lparr>q_attributes :=
                                  q_attributes (query b) @ newAttributes\<rparr>\<rparr>))"

definition BaseEntity_selectAs :: "string \<Rightarrow> string \<Rightarrow> BaseEntity \<Rightarrow> (error + unit) \<times> BaseEntity" where
  "BaseEntity_selectAs attribute alias b =
     (case validateAttributeName attribute of
        Inl e \<Rightarrow> (Inl e, b)
      | Inr _ \<Rightarrow>
          (case validateAttributeName alias of
             Inl e \<Rightarrow> (Inl e, b)
           | Inr _ \<Rightarrow>
               (Inr (), b\<lparr>query := (query b)\<lparr>q_attributes := q_attributes (query b) @
                  [\<lparr>attr_name = attribute, attr_alias = Some alias,
                    attr_aggregate = None\<rparr>]\<rparr>\<rparr>)))"

text \<open>
  \<open>addAggregate(aggregate, attribute?, alias?)\<close>. \<open>attribute ? ... : ...\<close> and
  \<open>if (attribute)\<close> test the truthiness of the argument: an absent argument and the empty
  string are falsy.
\<close>

definition addAggregate ::
  "string \<Rightarrow> string option \<Rightarrow> string option \<Rightarrow> BaseEntity \<Rightarrow> (error + unit) \<times> BaseEntity" where
  "addAggregate aggregate attribute alias b =
     (case validateAggregateType aggregate of
        Inl e \<Rightarrow> (Inl e, b)
      | Inr validAggregate \<Rightarrow>
          (let attributeName =
                 (case attribute of
                    None \<Rightarrow> entityName b @ ''id''
                  | Some a \<Rightarrow> if a \<noteq> [] then a else entityName b @ ''id'')
           in case (if truthyString attribute then validateAttributeName attributeName
                    else Inr ()) of
                Inl e \<Rightarrow> (Inl e, b)
              | Inr _ \<Rightarrow>
                  (Inr (), b\<lparr>query := (query b)\<lparr>q_attributes := q_attributes (query b) @
                     [\<lparr>attr_name = attributeName, attr_alias = alias,
                       attr_aggregate = Some validAggregate\<rparr>]\<rparr>\<rparr>)))"

definition BaseEntity_count :: "string option \<Rightarrow> string option \<Rightarrow> BaseEntity \<Rightarrow> (error + unit) \<times> BaseEntity" where
  "BaseEntity_count attribute alias b = addAggregate ''count'' attribute alias b"

definition BaseEntity_sum :: "string option \<Rightarrow> string option \<Rightarrow> BaseEntity \<Rightarrow> (error + unit) \<times> BaseEntity" where
  "BaseEntity_sum attribute alias b = addAggregate ''sum'' attribute alias b"

definition BaseEntity_avg :: "string option \<Rightarrow> string option \<Rightarrow> BaseEntity \<Rightarrow> (error + unit) \<times> BaseEntity" where
  "BaseEntity_avg attribute alias b = addAggregate ''avg'' attribute alias b"

definition BaseEntity_min :: "string option \<Rightarrow> string option \<Rightarrow> BaseEntity \<Rightarrow> (error + unit) \<times> BaseEntity" where
  "BaseEntity_min attribute alias b = addAggregate ''min'' attribute alias b"

definition BaseEntity_max :: "string option \<Rightarrow> string option \<Rightarrow> BaseEntity \<Rightarrow> (error + unit) \<times> BaseEntity" where
  "BaseEntity_max attribute alias b = addAggregate ''max'' attribute alias b"

text \<open>\<open>filters.conditions.push(condition)\<close>.\<close>

definition pushCondition :: "FilterCondition \<Rightarrow> FilterGroup \<Rightarrow> FilterGroup" where
  "pushCondition condition g = FilterGroup (fg_type g) (fg_conditions g @ [Inl condition])"

definition BaseEntity_where ::
  "string \<Rightarrow> string \<Rightarrow> jsvalue \<Rightarrow> BaseEntity \<Rightarrow> (error + unit) \<times> BaseEntity" where
  "BaseEntity_where attribute operator v b =
     (case validateAttributeName attribute of
        Inl e \<Rightarrow> (Inl e, b)
      | Inr _ \<Rightarrow>
          (case validateFilterOperator operator of
             Inl e \<Rightarrow> (Inl e, b)
           | Inr validOperator \<Rightarrow>
               (let condition = \<lparr>cond_attribute = attribute, cond_operator = validOperator,
                                 cond_value = v\<rparr>;
                    filters = (case q_filters (query b) of
                                 None \<Rightarrow> FilterGroup And []
                               | Some f \<Rightarrow> f)
                in (Inr (), b\<lparr>query := (query b)\<lparr>q_filters :=
                                        Some (pushCondition condition filters)\<rparr>\<rparr>))))"

text \<open>\<open>orderBy(attribute, order = 'asc')\<close>: an absent second argument takes the default.\<close>

definition BaseEntity_orderBy ::
  "string \<Rightarrow> string option \<Rightarrow> BaseEntity \<Rightarrow> (error + unit) \<times> BaseEntity" where
  "BaseEntity_orderBy attribute order_arg b =
     (let order = (case order_arg of None \<Rightarrow> ''asc'' | Some x \<Rightarrow> x)
      in case validateAttributeName attribute of
           Inl e \<Rightarrow> (Inl e, b)
         | Inr _ \<Rightarrow>
             (case validateOrderType order of
                Inl e \<Rightarrow> (Inl e, b)
              | Inr validOrder \<Rightarrow>
                  (let orders = (case q_orders (query b) of None \<Rightarrow> [] | Some os \<Rightarrow> os)
                   in (Inr (), b\<lparr>query := (query b)\<lparr>q_orders := Some (orders @
                         [\<lparr>ord_attribute = attribute, ord_order = validOrder\<rparr>])\<rparr>\<rparr>))))"

definition BaseEntity_top :: "number \<Rightarrow> BaseEntity \<Rightarrow> (error + unit) \<times> BaseEntity" where
  "BaseEntity_top count b =
     (case validateTop count of
        Inl e \<Rightarrow> (Inl e, b)
      | Inr _ \<Rightarrow> (Inr (), b\<lparr>query := (query b)\<lparr>q_top := Some count\<rparr>\<rparr>))"

text \<open>\<open>page(pageNumber, pageSize = 50)\<close>.\<close>

definition BaseEntity_page :: "number \<Rightarrow> number option \<Rightarrow> BaseEntity \<Rightarrow> (error + unit) \<times> BaseEntity" where
  "BaseEntity_page pageNumber pageSize_arg b =
     (let pageSize = (case pageSize_arg of None \<Rightarrow> num 50 | Some x \<Rightarrow> x)
      in case validatePagination pageNumber pageSize of
           Inl e \<Rightarrow> (Inl e, b)
         | Inr _ \<Rightarrow>
             (Inr (), b\<lparr>query := (query b)\<lparr>q_page := Some pageNumber,
                                             q_count := Some pageSize\<rparr>\<rparr>))"

definition BaseEntity_distinct :: "BaseEntity \<Rightarrow> (error + unit) \<times> BaseEntity" where
  "BaseEntity_distinct b = (Inr (), b\<lparr>query := (query b)\<lparr>q_distinct := Some True\<rparr>\<rparr>)"

definition BaseEntity_groupBy :: "string \<Rightarrow> BaseEntity \<Rightarrow> (error + unit) \<times> BaseEntity" where
  "BaseEntity_groupBy attribute b =
     (case validateAttributeName attribute of
        Inl e \<Rightarrow> (Inl e, b)
      | Inr _ \<Rightarrow> (Inr (), b))"

text \<open>
  \<open>join\<close> returns a \<open>JoinBuilder\<close> bound to the link it pushed; the normal result here is
  the position of that link in the query's \<open>links\<close>.
\<close>

definition BaseEntity_join ::
  "string \<Rightarrow> string \<Rightarrow> string \<Rightarrow> string option \<Rightarrow> LinkType option \<Rightarrow> BaseEntity
     \<Rightarrow> (error + nat) \<times> BaseEntity" where
  "BaseEntity_join name fromAttribute toAttribute alias linkType b =
     (case validateEntityName name of
        Inl e \<Rightarrow> (Inl e, b)
      | Inr _ \<Rightarrow>
          (case validateAttributeName fromAttribute of
             Inl e \<Rightarrow> (Inl e, b)
           | Inr _ \<Rightarrow>
               (case validateAttributeName toAttribute of
                  Inl e \<Rightarrow> (Inl e, b)
                | Inr _ \<Rightarrow>
                    (let link = LinkEntity name fromAttribute toAttribute alias linkType
                                  [] None None;
                         links = (case q_links (query b) of None \<Rightarrow> [] | Some ls \<Rightarrow> ls)
                     in (Inr (length links),
                         b\<lparr>query := (query b)\<lparr>q_links := Some (links @ [link])\<rparr>\<rparr>)))))"

definition BaseEntity_build :: "BaseEntity \<Rightarrow> string" where
  "BaseEntity_build b = build (query b)"

text \<open>One call of the fluent interface, and its effect on the builder.\<close>

datatype call =
    CallSelect "string list"
  | CallSelectAs string string
  | CallCount "string option" "string option"
  | CallSum "string option" "string option"
  | CallAvg "string option" "string option"
  | CallMin "string option" "string option"
  | CallMax "string option" "string option"
  | CallWhere string string jsvalue
  | CallOrderBy string "string option"
  | CallTop number
  | CallPage number "number option"
  | CallDistinct
  | CallGroupBy string
  | CallJoin string string string "string option" "LinkType option"

fun exec :: "call \<Rightarrow> BaseEntity \<Rightarrow> (error + unit) \<times> BaseEntity" where
  "exec (CallSelect attributes) b = BaseEntity_select attributes b"
| "exec (CallSelectAs attribute alias) b = BaseEntity_selectAs attribute alias b"
| "exec (CallCount attribute alias) b = BaseEntity_count attribute alias b"
| "exec (CallSum attribute alias) b = BaseEntity_sum attribute alias b"
| "exec (CallAvg attribute alias) b = BaseEntity_avg attribute alias b"
| "exec (CallMin attribute alias) b = BaseEntity_min attribute alias b"
| "exec (CallMax attribute alias) b = BaseEntity_max attribute alias b"
| "exec (CallWhere attribute operator v) b = BaseEntity_where attribute operator v b"
| "exec (CallOrderBy attribute order) b = BaseEntity_orderBy attribute order b"
| "exec (CallTop n) b = BaseEntity_top n b"
| "exec (CallPage pageNumber pageSize) b = BaseEntity_page pageNumber pageSize b"
| "exec CallDistinct b = BaseEntity_distinct b"
| "exec (CallGroupBy attribute) b = BaseEntity_groupBy attribute b"
| "exec (CallJoin name fromAttribute toAttribute alias linkType) b =
     (case BaseEntity_join name fromAttribute toAttribute alias linkType b of
        (Inl e, b') \<Rightarrow> (Inl e, b')
      | (Inr _, b') \<Rightarrow> (Inr (), b'))"

section \<open>Join builder (src/builders/join-builder.ts)\<close>

text \<open>
  The operations of a \<open>JoinBuilder\<close> act on the \<open>LinkEntity\<close> it is bound to: each is a
  function from the link before the call to the outcome and the link after the call.
\<close>

definition JoinBuilder_select :: "string list \<Rightarrow> LinkEntity \<Rightarrow> (error + unit) \<times> LinkEntity" where
  "JoinBuilder_select attributes link =
     (case mapValidated attributes of
        Inl e \<Rightarrow> (Inl e, link)
      | Inr newAttributes \<Rightarrow>
          (Inr (), LinkEntity (link_name link) (link_from link) (link_to link)
                     (link_alias link) (link_linkType link)
                     (link_attributes link @ newAttributes)
                     (link_filters link) (link_links link)))"

definition JoinBuilder_selectAs ::
  "string \<Rightarrow> string \<Rightarrow> LinkEntity \<Rightarrow> (error + unit) \<times> LinkEntity" where
  "JoinBuilder_selectAs attribute alias link =
     (case validateAttributeName attribute of
        Inl e \<Rightarrow> (Inl e, link)
      | Inr _ \<Rightarrow>
          (case validateAttributeName alias of
             Inl e \<Rightarrow> (Inl e, link)
           | Inr _ \<Rightarrow>
               (Inr (), LinkEntity (link_name link) (link_from link) (link_to link)
                          (link_alias link) (link_linkType link)
                          (link_attributes link @
                             [\<lparr>attr_name = attribute, attr_alias = Some alias,
                               attr_aggregate = None\<rparr>])
                          (link_filters link) (link_links link))))"

definition JoinBuilder_where ::
  "string \<Rightarrow> string \<Rightarrow> jsvalue \<Rightarrow> LinkEntity \<Rightarrow> (error + unit) \<times> LinkEntity" where
  "JoinBuilder_where attribute operator v link =
     (case validateAttributeName attribute of
        Inl e \<Rightarrow> (Inl e, link)
      | Inr _ \<Rightarrow>
          (case validateFilterOperator operator of
             Inl e \<Rightarrow> (Inl e, link)
           | Inr validOperator \<Rightarrow>
               (let condition = \<lparr>cond_attribute = attribute, cond_operator = validOperator,
                                 cond_value = v\<rparr>;
                    filters = (case link_filters link of
                                 None \<Rightarrow> FilterGroup And []
                               | Some f \<Rightarrow> f)
                in (Inr (), LinkEntity (link_name link) (link_from link) (link_to link)
                              (link_alias link) (link_linkType link) (link_attributes link)
                              (Some (pushCondition condition filters)) (link_links link)))))"

section \<open>Reference readers of the rendered text\<close>

text \<open>
  A reference XML unescaper, the reader's side of \<open>escapeXml\<close>: it decodes the five
  predefined entities and decimal character references, and copies everything else.
\<close>

definition isDigit :: "char \<Rightarrow> bool" where
  "isDigit c = (48 \<le> (of_char c :: nat) \<and> (of_char c :: nat) \<le> 57)"

definition decimalValue :: "string \<Rightarrow> nat" where
  "decimalValue ds = foldl (\<lambda>n c. 10 * n + (of_char c - 48)) 0 ds"

text \<open>
  \<open>numericReference cs\<close> reads \<open>#\<close>, decimal digits and \<open>;\<close> at the head of \<open>cs\<close>, and
  gives the character and the number of characters read.
\<close>

definition numericReference :: "string \<Rightarrow> (char \<times> nat) option" where
  "numericReference cs =
     (case cs of
        [] \<Rightarrow> None
      | h # r \<Rightarrow>
          (let ds = takeWhile isDigit r
           in if h = CHR ''#'' \<and> ds \<noteq> [] \<and> take 1 (drop (length ds) r) = '';''
                 \<and> decimalValue ds < 256
              then Some (char_of (decimalValue ds), length ds + 2)
              else None))"

fun referenceUnescape :: "string \<Rightarrow> string" where
  "referenceUnescape [] = []"
| "referenceUnescape (c # cs) =
     (if c \<noteq> CHR ''&'' then c # referenceUnescape cs
      else if take 4 cs = ''amp;'' then CHR ''&'' # referenceUnescape (drop 4 cs)
      else if take 3 cs = ''lt;'' then CHR ''<'' # referenceUnescape (drop 3 cs)
      else if take 3 cs = ''gt;'' then CHR ''>'' # referenceUnescape (drop 3 cs)
      else if take 5 cs = ''quot;'' then CHR 0x22 # referenceUnescape (drop 5 cs)
      else if take 5 cs = ''apos;'' then CHR 0x27 # referenceUnescape (drop 5 cs)
      else (case numericReference cs of
              Some (ch, k) \<Rightarrow> ch # referenceUnescape (drop k cs)
            | None \<Rightarrow> c # referenceUnescape cs))"

text \<open>
  A reader of the attributes of a rendered self-closing element: after the element name,
  a sequence of \<open> name="value"\<close> pairs up to the closing \<open>/>\<close>. A value ends at the first
  double quote, as in XML.
\<close>

function readAttributes :: "string \<Rightarrow> (string \<times> string) list option" where
  "readAttributes s =
     (if s = ''/>'' then Some []
      else if take 1 s \<noteq> '' '' then None
      else
        (let r = drop 1 s;
             k = takeWhile (\<lambda>x. x \<noteq> CHR ''='') r;
             r1 = dropWhile (\<lambda>x. x \<noteq> CHR ''='') r
         in if take 2 r1 \<noteq> [CHR ''='', CHR 0x22] then None
            else
              (let r2 = drop 2 r1;
                   v = takeWhile (\<lambda>x. x \<noteq> CHR 0x22) r2;
                   r3 = dropWhile (\<lambda>x. x \<noteq> CHR 0x22) r2
               in if r3 = [] then None
                  else map_option ((#) (k, v)) (readAttributes (drop 1 r3)))))"
  by pat_completeness auto
termination
proof (relation "measure length", goal_cases)
  case 1
  show ?case by simp
next
  case (2 s r k r1 r2 v r3)
  have e3: "r3 = dropWhile (\<lambda>x. x \<noteq> CHR 0x22) r2" using 2 by simp
  have e2: "r2 = drop 2 r1" using 2 by simp
  have e1: "r1 = dropWhile (\<lambda>x. x \<noteq> CHR ''='') r" using 2 by simp
  have e0: "r = drop 1 s" using 2 by simp
  have ne: "s \<noteq> []" using 2 by auto
  have "length r3 \<le> length r2" unfolding e3 by (rule length_dropWhile_le)
  also have "\<dots> \<le> length r1" unfolding e2 by simp
  also have "\<dots> \<le> length r" unfolding e1 by (rule length_dropWhile_le)
  also have "\<dots> < length s" unfolding e0 using ne by (cases s) simp_all
  finally show ?case by simp
qed

declare readAttributes.simps [simp del]

definition readElement :: "string \<Rightarrow> string \<Rightarrow> (string \<times> string) list option" where
  "readElement name s =
     (if take (length name + 1) s = ''<'' @ name
      then readAttributes (drop (length name + 1) s) else None)"

section \<open>Auxiliary descriptions used in the statements\<close>

text \<open>What \<open>escapeXml\<close> makes of one character.\<close>

definition escapeChar :: "char \<Rightarrow> string" where
  "escapeChar c =
     (if c = CHR ''&'' then ''&amp;''
      else if c = CHR ''<'' then ''&lt;''
      else if c = CHR ''>'' then ''&gt;''
      else if c = CHR 0x22 then ''&quot;''
      else if c = CHR 0x27 then ''&#39;''
      else [c])"

text \<open>The start tag of a rendered link entity.\<close>

definition linkStartTag :: "LinkEntity \<Rightarrow> string" where
  \<open>linkStartTag link =
     ''<link-entity name="'' @ escapeXml (link_name link)
       @ ''" from="'' @ escapeXml (link_from link)
       @ ''" to="'' @ escapeXml (link_to link) @ ''"''
       @ (if truthyString (link_alias link)
          then '' alias="'' @ escapeXml (case link_alias link of None \<Rightarrow> [] | Some a \<Rightarrow> a) @ ''"''
          else [])
       @ (case link_linkType link of
            None \<Rightarrow> []
          | Some t \<Rightarrow> '' link-type="'' @ linkTypeText t @ ''"'')
       @ ''>''\<close>

text \<open>A name passes \<open>validateAttributeName\<close>.\<close>

definition validName :: "string \<Rightarrow> bool" where
  "validName a = (validateAttributeName a = Inr ())"

text \<open>The \<open>value\<close> attribute that a condition value contributes to the rendered element.\<close>

definition valueAttribute :: "jsvalue \<Rightarrow> (string \<times> string) list" where
  "valueAttribute v =
     (case v of
        JUndefined \<Rightarrow> []
      | JNull \<Rightarrow> []
      | JScalar x \<Rightarrow> [(''value'', escapeXml (toString x))])"

text \<open>A number lies between the integers \<open>lo\<close> and \<open>hi\<close>, both included.\<close>

fun withinRange :: "int \<Rightarrow> int \<Rightarrow> number \<Rightarrow> bool" where
  "withinRange lo hi (Num a) = (lo \<le> intValue a \<and> intValue a \<le> hi)"
| "withinRange lo hi NaN = False"
| "withinRange lo hi PosInfinity = False"
| "withinRange lo hi NegInfinity = False"

text \<open>The attribute that \<open>select\<close> makes of a name.\<close>

definition plainAttribute :: "string \<Rightarrow> Attribute" where
  "plainAttribute n = \<lparr>attr_name = n, attr_alias = None, attr_aggregate = None\<rparr>"

section \<open>Escaping\<close>

lemma replaceAll_Nil: "replaceAll c r [] = []"
  by (simp add: replaceAll_def)

lemma replaceAll_Cons:
  "replaceAll c r (x # xs) = (if x = c then r else [x]) @ replaceAll c r xs"
  by (simp add: replaceAll_def)

lemma replaceAll_append:
  "replaceAll c r (xs @ ys) = replaceAll c r xs @ replaceAll c r ys"
  by (simp add: replaceAll_def)

lemma escapeXml_Nil: "escapeXml [] = []"
  by (simp add: escapeXml_def replaceAll_Nil)

text \<open>
  The five passes of \<open>escapeXml\<close> act as one pass: the ampersand pass runs first, so the
  ampersands that the later passes insert are not escaped again, and no replacement text
  contains a character that a later pass replaces.
\<close>

lemma escapeXml_Cons: "escapeXml (x # xs) = escapeChar x @ escapeXml xs"
  by (simp add: escapeXml_def escapeChar_def replaceAll_Cons replaceAll_append replaceAll_Nil)

lemma escapeXml_concat: "escapeXml s = concat (map escapeChar s)"
  by (induction s) (simp_all add: escapeXml_Nil escapeXml_Cons)

lemma escapeChar_no_quote: "CHR 0x22 \<notin> set (escapeChar c)"
  by (simp add: escapeChar_def)

lemma escapeXml_no_quote: "CHR 0x22 \<notin> set (escapeXml s)"
  by (simp add: escapeXml_concat escapeChar_no_quote)

lemma char_of_39: "char_of (39::nat) = CHR 0x27"
  by (simp add: char_of_eq_iff)

lemma numericReference_39: "numericReference (''#39;'' @ rest) = Some (CHR 0x27, 4)"
  by (simp add: numericReference_def isDigit_def decimalValue_def Let_def char_of_39)

lemma referenceUnescape_escapeChar:
  "referenceUnescape (escapeChar c @ rest) = c # referenceUnescape rest"
  using numericReference_39 [of rest] by (simp add: escapeChar_def)

lemma referenceUnescape_escapeXml: "referenceUnescape (escapeXml s) = s"
  by (induction s)
     (simp_all add: escapeXml_Nil escapeXml_Cons referenceUnescape_escapeChar
        del: referenceUnescape.simps(2))

text \<open>
  C6. For every string, the reference unescaper applied to the output of \<open>escapeXml\<close>
  gives the string back: escaping followed by unescaping is the identity.
\<close>

theorem escape_unescape_identity: "referenceUnescape (escapeXml s) = s"
  by (rule referenceUnescape_escapeXml)

theorem escape_unescape_identity_witness:
  \<open>referenceUnescape (escapeXml (''a&b<c>d&amp;'' @ [CHR 0x22, CHR 0x27]))
     = ''a&b<c>d&amp;'' @ [CHR 0x22, CHR 0x27]\<close>
  using escape_unescape_identity [of \<open>''a&b<c>d&amp;'' @ [CHR 0x22, CHR 0x27]\<close>] by simp

section \<open>Validators\<close>

lemma trim_Nil_iff: "trim s = [] \<longleftrightarrow> (\<forall>c \<in> set s. isWhiteSpace c)"
proof
  assume "trim s = []"
  then have all: "\<forall>c \<in> set (dropWhile isWhiteSpace s). isWhiteSpace c"
    by (simp add: trim_def)
  have "dropWhile isWhiteSpace s = []"
  proof (rule ccontr)
    assume ne: "dropWhile isWhiteSpace s \<noteq> []"
    then have "\<not> isWhiteSpace (hd (dropWhile isWhiteSpace s))"
      by (rule hd_dropWhile)
    moreover have "hd (dropWhile isWhiteSpace s) \<in> set (dropWhile isWhiteSpace s)"
      using ne by (rule hd_in_set)
    ultimately show False using all by blast
  qed
  then show "\<forall>c \<in> set s. isWhiteSpace c"
    by simp
next
  assume "\<forall>c \<in> set s. isWhiteSpace c"
  then have d: "dropWhile isWhiteSpace s = []"
    by simp
  show "trim s = []"
    unfolding trim_def d by simp
qed

lemma validateAttributeName_cases:
  "validateAttributeName a =
     (if validName a then Inr ()
      else Inl (ValidationError ''Attribute name cannot be empty'' ''attribute''))"
  by (simp add: validName_def validateAttributeName_def)

lemma validName_iff: "validName a \<longleftrightarrow> a \<noteq> [] \<and> (\<exists>c \<in> set a. \<not> isWhiteSpace c)"
  by (auto simp: validName_def validateAttributeName_def trim_Nil_iff)

lemma mapValidated_valid:
  "\<forall>n \<in> set names. validName n \<Longrightarrow> mapValidated names = Inr (map plainAttribute names)"
  by (induction names) (simp_all add: validateAttributeName_cases plainAttribute_def)

lemma mapValidated_invalid:
  "\<exists>n \<in> set names. \<not> validName n \<Longrightarrow>
     mapValidated names = Inl (ValidationError ''Attribute name cannot be empty'' ''attribute'')"
  by (induction names) (auto simp: validateAttributeName_cases split: sum.splits)

lemma digits_0: "digits 0 = ''0''"
  by (subst digits.simps) (simp add: digitChar_def)

lemma digits_1: "digits 1 = ''1''"
  by (subst digits.simps) (simp add: digitChar_def)

lemma digits_5: "digits 5 = ''5''"
  by (subst digits.simps) (simp add: digitChar_def)

lemma digits_50: "digits 50 = ''50''"
  by (subst digits.simps) (simp add: digits_5 digitChar_def)

lemma digits_500: "digits 500 = ''500''"
  by (subst digits.simps) (simp add: digits_50 digitChar_def)

lemma digits_5000: "digits 5000 = ''5000''"
  by (subst digits.simps) (simp add: digits_500 digitChar_def)

lemma intValue_SafeInt:
  "- 9007199254740992 < n \<Longrightarrow> n < 9007199254740992 \<Longrightarrow> intValue (SafeInt n) = n"
  by (simp add: SafeInt_inverse)

lemma numToString_0: "numToString (num 0) = ''0''"
  by (simp add: num_def intValue_SafeInt digits_0)

lemma numToString_1: "numToString (num 1) = ''1''"
  using digits_1 by (simp add: num_def intValue_SafeInt)

lemma numToString_50: "numToString (num 50) = ''50''"
  by (simp add: num_def intValue_SafeInt digits_50)

lemma numToString_5000: "numToString (num 5000) = ''5000''"
  by (simp add: num_def intValue_SafeInt digits_5000)

lemma numLess_num:
  "- 9007199254740992 < a \<Longrightarrow> a < 9007199254740992 \<Longrightarrow>
   - 9007199254740992 < b \<Longrightarrow> b < 9007199254740992 \<Longrightarrow>
   numLess (num a) (num b) = (a < b)"
  by (simp add: num_def intValue_SafeInt)

lemma numLess_NaN: "numLess NaN x = False" "numLess x NaN = False"
  by (cases x; simp)+

lemma validateTop_cases:
  "validateTop n =
     (if numLess n (num 1) \<or> numLess (num 5000) n
      then Inl (ValidationError ''Top value must be between 1 and 5000'' ''top'')
      else Inr ())"
  by (simp add: validateTop_def MIN_TOP_SIZE_def MAX_TOP_SIZE_def numToString_1 numToString_5000)

lemma validatePagination_cases:
  "validatePagination p s =
     (if numLess p (num 1)
      then Inl (ValidationError ''Page number must be greater than 1'' ''page'')
      else if numLess s (num 1) \<or> numLess (num 5000) s
      then Inl (ValidationError ''Page count must be between 1 and 5000'' ''count'')
      else Inr ())"
  by (simp add: validatePagination_def MIN_PAGE_SIZE_def MAX_PAGE_SIZE_def numToString_1 numToString_5000)

text \<open>
  A number passes the range checks of the validators exactly when it is between 1 and
  5000 or is \<open>NaN\<close>: both comparisons of a check are false for \<open>NaN\<close>.
\<close>

lemma range_check_iff:
  "(\<not> numLess n (num 1) \<and> \<not> numLess (num 5000) n) \<longleftrightarrow> withinRange 1 5000 n \<or> n = NaN"
  by (cases n) (auto simp: num_def intValue_SafeInt)

section \<open>A failed call leaves the model as it was\<close>

lemma select_failed:
  "fst (BaseEntity_select names b) = Inl e \<Longrightarrow> snd (BaseEntity_select names b) = b"
  by (simp add: BaseEntity_select_def split: sum.splits)

lemma selectAs_failed:
  "fst (BaseEntity_selectAs a al b) = Inl e \<Longrightarrow> snd (BaseEntity_selectAs a al b) = b"
  by (simp add: BaseEntity_selectAs_def split: sum.splits)

lemma addAggregate_failed:
  "fst (addAggregate g a al b) = Inl e \<Longrightarrow> snd (addAggregate g a al b) = b"
  by (auto simp: addAggregate_def Let_def split: sum.splits if_splits)

lemma where_failed:
  "fst (BaseEntity_where a op v b) = Inl e \<Longrightarrow> snd (BaseEntity_where a op v b) = b"
  by (simp add: BaseEntity_where_def Let_def split: sum.splits)

lemma orderBy_failed:
  "fst (BaseEntity_orderBy a ord b) = Inl e \<Longrightarrow> snd (BaseEntity_orderBy a ord b) = b"
  by (simp add: BaseEntity_orderBy_def Let_def split: sum.splits)

lemma top_failed:
  "fst (BaseEntity_top n b) = Inl e \<Longrightarrow> snd (BaseEntity_top n b) = b"
  by (simp add: BaseEntity_top_def split: sum.splits)

lemma page_failed:
  "fst (BaseEntity_page p ps b) = Inl e \<Longrightarrow> snd (BaseEntity_page p ps b) = b"
  by (simp add: BaseEntity_page_def Let_def split: sum.splits)

lemma groupBy_failed:
  "fst (BaseEntity_groupBy a b) = Inl e \<Longrightarrow> snd (BaseEntity_groupBy a b) = b"
  by (simp add: BaseEntity_groupBy_def split: sum.splits)

lemma join_failed:
  "fst (BaseEntity_join n f t al lt b) = Inl e \<Longrightarrow> snd (BaseEntity_join n f t al lt b) = b"
  by (simp add: BaseEntity_join_def Let_def split: sum.splits)

lemma exec_failed: "fst (exec c b) = Inl e \<Longrightarrow> snd (exec c b) = b"
proof (cases c)
  case (CallJoin n f t al lt)
  assume failed: "fst (exec c b) = Inl e"
  obtain r b' where j: "BaseEntity_join n f t al lt b = (r, b')"
    by (cases "BaseEntity_join n f t al lt b")
  show ?thesis
  proof (cases r)
    case (Inl e')
    then have "snd (BaseEntity_join n f t al lt b) = b"
      using j join_failed [of n f t al lt b e'] by simp
    then show ?thesis
      using j Inl by (simp add: CallJoin)
  next
    case (Inr k)
    then show ?thesis
      using failed j by (simp add: CallJoin)
  qed
qed (simp_all add: select_failed selectAs_failed addAggregate_failed where_failed
       orderBy_failed top_failed page_failed groupBy_failed
       BaseEntity_count_def BaseEntity_sum_def BaseEntity_avg_def BaseEntity_min_def
       BaseEntity_max_def BaseEntity_distinct_def)

text \<open>
  Every call of the entity builder that throws leaves the builder as it was: each method
  validates all of its arguments before its first write to the query. A variadic select
  with an invalid name among its arguments throws and appends none of them, and a page
  call whose page size fails the range check throws and leaves page and count as they
  were.
\<close>

lemma failed_call_leaves_builder:
  "(fst (exec c b) = Inl e \<longrightarrow> snd (exec c b) = b)
   \<and> ((\<exists>n \<in> set names. \<not> validName n) \<longrightarrow>
        (\<exists>e'. BaseEntity_select names b = (Inl e', b)))
   \<and> (numLess pageSize (num 1) \<or> numLess (num 5000) pageSize \<longrightarrow>
        (\<exists>e'. BaseEntity_page pageNumber (Some pageSize) b = (Inl e', b)))"
proof (intro conjI impI)
  assume "fst (exec c b) = Inl e"
  then show "snd (exec c b) = b"
    by (rule exec_failed)
next
  assume "\<exists>n \<in> set names. \<not> validName n"
  then show "\<exists>e'. BaseEntity_select names b = (Inl e', b)"
    by (simp add: BaseEntity_select_def mapValidated_invalid)
next
  assume "numLess pageSize (num 1) \<or> numLess (num 5000) pageSize"
  then show "\<exists>e'. BaseEntity_page pageNumber (Some pageSize) b = (Inl e', b)"
    by (auto simp: BaseEntity_page_def validatePagination_cases)
qed

lemma failed_call_examples:
  "exec (CallTop (num 0)) (BaseEntity_new ''account'' ''account'')
     = (Inl (ValidationError ''Top value must be between 1 and 5000'' ''top''),
        BaseEntity_new ''account'' ''account'')
   \<and> BaseEntity_select [''name'', ''  '', ''revenue''] (BaseEntity_new ''account'' ''account'')
     = (Inl (ValidationError ''Attribute name cannot be empty'' ''attribute''),
        BaseEntity_new ''account'' ''account'')
   \<and> BaseEntity_page (num 1) (Some (num 5001)) (BaseEntity_new ''account'' ''account'')
     = (Inl (ValidationError ''Page count must be between 1 and 5000'' ''count''),
        BaseEntity_new ''account'' ''account'')"
proof -
  have v: "\<exists>n \<in> set [''name'', ''  '', ''revenue'']. \<not> validName n"
    by (simp add: validName_iff isWhiteSpace_def)
  have sel: "BaseEntity_select [''name'', ''  '', ''revenue''] (BaseEntity_new ''account'' ''account'')
     = (Inl (ValidationError ''Attribute name cannot be empty'' ''attribute''),
        BaseEntity_new ''account'' ''account'')"
    unfolding BaseEntity_select_def mapValidated_invalid [OF v] by simp
  show ?thesis
    using sel
    by (simp add: BaseEntity_top_def BaseEntity_page_def
          validateTop_cases validatePagination_cases numLess_num)
qed


section \<open>groupBy\<close>

text \<open>
  C7. \<open>groupBy(attribute)\<close> with a valid attribute name (non-empty and not only white
  space) returns normally and leaves every field of the builder's query unchanged, so a
  later \<open>build()\<close> gives the text it would have given without the call; with an invalid
  name it throws a \<open>ValidationError\<close> and leaves the query unchanged as well.
\<close>

theorem groupBy_leaves_model:
  "(validName a \<longrightarrow> BaseEntity_groupBy a b = (Inr (), b))
   \<and> (\<not> validName a \<longrightarrow>
        BaseEntity_groupBy a b
          = (Inl (ValidationError ''Attribute name cannot be empty'' ''attribute''), b))
   \<and> snd (BaseEntity_groupBy a b) = b
   \<and> BaseEntity_build (snd (BaseEntity_groupBy a b)) = BaseEntity_build b
   \<and> (validName a \<longleftrightarrow> a \<noteq> [] \<and> (\<exists>c \<in> set a. \<not> isWhiteSpace c))"
proof -
  have "snd (BaseEntity_groupBy a b) = b"
    by (simp add: BaseEntity_groupBy_def validateAttributeName_cases)
  then show ?thesis
    using validName_iff [of a]
    by (simp add: BaseEntity_groupBy_def validateAttributeName_cases)
qed

theorem groupBy_leaves_model_witness:
  "BaseEntity_groupBy ''name'' (BaseEntity_new ''account'' ''account'')
     = (Inr (), BaseEntity_new ''account'' ''account'')
   \<and> BaseEntity_groupBy ''  '' (BaseEntity_new ''account'' ''account'')
     = (Inl (ValidationError ''Attribute name cannot be empty'' ''attribute''),
        BaseEntity_new ''account'' ''account'')
   \<and> BaseEntity_groupBy [] (BaseEntity_new ''account'' ''account'')
     = (Inl (ValidationError ''Attribute name cannot be empty'' ''attribute''),
        BaseEntity_new ''account'' ''account'')"
proof -
  have v: "validName ''name''" and w: "\<not> validName ''  ''" and e: "\<not> validName []"
    by (simp_all add: validName_iff isWhiteSpace_def)
  show ?thesis
    using groupBy_leaves_model [of "''name''" "BaseEntity_new ''account'' ''account''"]
          groupBy_leaves_model [of "''  ''" "BaseEntity_new ''account'' ''account''"]
          groupBy_leaves_model [of "[]" "BaseEntity_new ''account'' ''account''"]
          v w e
    by blast
qed

section \<open>Ranges of top and page\<close>

text \<open>
  The outcomes of \<open>top(n)\<close> and \<open>page(p, s)\<close> for every number. \<open>top(n)\<close> throws a
  \<open>ValidationError\<close> exactly when \<open>n < 1\<close> or \<open>n > 5000\<close> is true, and otherwise sets
  \<open>top\<close>; \<open>page(p, s)\<close> throws exactly when \<open>p < 1\<close>, \<open>s < 1\<close> or \<open>s > 5000\<close> is true, and
  otherwise sets both \<open>page\<close> and \<open>count\<close>; an absent page size is 50. A number makes
  neither comparison of a range check true exactly when it is between 1 and 5000 or is
  \<open>NaN\<close>.
\<close>

lemma top_page_outcomes:
  "BaseEntity_top n b =
     (if numLess n (num 1) \<or> numLess (num 5000) n
      then (Inl (ValidationError ''Top value must be between 1 and 5000'' ''top''), b)
      else (Inr (), b\<lparr>query := (query b)\<lparr>q_top := Some n\<rparr>\<rparr>))
   \<and> ((\<exists>m f. fst (BaseEntity_top n b) = Inl (ValidationError m f))
        \<longleftrightarrow> \<not> (withinRange 1 5000 n \<or> n = NaN))
   \<and> BaseEntity_page p (Some s) b =
     (if numLess p (num 1)
      then (Inl (ValidationError ''Page number must be greater than 1'' ''page''), b)
      else if numLess s (num 1) \<or> numLess (num 5000) s
      then (Inl (ValidationError ''Page count must be between 1 and 5000'' ''count''), b)
      else (Inr (), b\<lparr>query := (query b)\<lparr>q_page := Some p, q_count := Some s\<rparr>\<rparr>))
   \<and> ((\<exists>m f. fst (BaseEntity_page p (Some s) b) = Inl (ValidationError m f))
        \<longleftrightarrow> numLess p (num 1) \<or> \<not> (withinRange 1 5000 s \<or> s = NaN))
   \<and> BaseEntity_page p None b = BaseEntity_page p (Some (num 50)) b"
  using range_check_iff [of n] range_check_iff [of s]
  by (auto simp: BaseEntity_top_def BaseEntity_page_def validateTop_cases
        validatePagination_cases)

lemma top_page_examples:
  "(\<exists>m f. fst (BaseEntity_top (num 0) (BaseEntity_new ''account'' ''account'')) = Inl (ValidationError m f))
   \<and> (\<exists>m f. fst (BaseEntity_top (num 5001) (BaseEntity_new ''account'' ''account'')) = Inl (ValidationError m f))
   \<and> fst (BaseEntity_top (num 1) (BaseEntity_new ''account'' ''account'')) = Inr ()
   \<and> fst (BaseEntity_top (num 5000) (BaseEntity_new ''account'' ''account'')) = Inr ()
   \<and> (\<exists>m f. fst (BaseEntity_page (num 0) (Some (num 10)) (BaseEntity_new ''account'' ''account'')) = Inl (ValidationError m f))
   \<and> (\<exists>m f. fst (BaseEntity_page (num 1) (Some (num 0)) (BaseEntity_new ''account'' ''account'')) = Inl (ValidationError m f))
   \<and> (\<exists>m f. fst (BaseEntity_page (num 1) (Some (num 5001)) (BaseEntity_new ''account'' ''account'')) = Inl (ValidationError m f))
   \<and> fst (BaseEntity_page (num 1) (Some (num 50)) (BaseEntity_new ''account'' ''account'')) = Inr ()
   \<and> fst (BaseEntity_page (num 1) None (BaseEntity_new ''account'' ''account'')) = Inr ()
   \<and> q_page (query (snd (BaseEntity_page (num 1) None (BaseEntity_new ''account'' ''account'')))) = Some (num 1)
   \<and> q_count (query (snd (BaseEntity_page (num 1) None (BaseEntity_new ''account'' ''account'')))) = Some (num 50)"
  by (simp add: BaseEntity_top_def BaseEntity_page_def validateTop_cases
        validatePagination_cases numLess_num)

text \<open>
  C8 says that \<open>top(n)\<close> throws exactly when \<open>n\<close> is outside 1..5000, and \<open>page(p, s)\<close>
  exactly when \<open>p < 1\<close> or \<open>s\<close> is outside 1..5000. \<open>NaN\<close> is not between 1 and 5000, but
  every comparison with \<open>NaN\<close> is false, so the range checks of \<open>validateTop\<close> and
  \<open>validatePagination\<close> let it pass: \<open>top(NaN)\<close> returns normally and sets top to
  \<open>NaN\<close>, and \<open>page(1, NaN)\<close> returns normally and sets page to 1 and count to \<open>NaN\<close>.
\<close>

theorem top_and_page_accept_NaN:
  "\<not> withinRange 1 5000 NaN
   \<and> BaseEntity_top NaN (BaseEntity_new ''account'' ''account'')
       = (Inr (), (BaseEntity_new ''account'' ''account'')
            \<lparr>query := (query (BaseEntity_new ''account'' ''account''))\<lparr>q_top := Some NaN\<rparr>\<rparr>)
   \<and> BaseEntity_page (num 1) (Some NaN) (BaseEntity_new ''account'' ''account'')
       = (Inr (), (BaseEntity_new ''account'' ''account'')
            \<lparr>query := (query (BaseEntity_new ''account'' ''account''))
               \<lparr>q_page := Some (num 1), q_count := Some NaN\<rparr>\<rparr>)"
  by (simp add: BaseEntity_top_def BaseEntity_page_def validateTop_cases
        validatePagination_cases numLess_num numLess_NaN)

section \<open>Construction of a builder\<close>

lemma build_new:
  \<open>build (query (BaseEntity_new field name))
     = ''<fetch><entity name="'' @ name @ ''"></entity></fetch>''\<close>
  by (simp add: build_def BaseEntity_new_def buildAttributes_def Let_def)

text \<open>
  C9. Constructing an entity builder validates nothing: for every string, the empty
  string and strings of white space included, the builder exists and a following
  \<open>build()\<close> renders the string as it is inside \<open><entity name="...">\<close>. The rule that a
  name is not empty is applied by \<open>join\<close> (to the joined entity's name) and where an
  attribute is inserted, not by the constructor.
\<close>

theorem constructor_accepts_any_name:
  \<open>q_entity (query (BaseEntity_new field name)) = name
   \<and> BaseEntity_build (BaseEntity_new field name)
       = ''<fetch><entity name="'' @ name @ ''"></entity></fetch>''
   \<and> (name = [] \<or> trim name = [] \<longrightarrow>
        validateEntityName name = Inl (ValidationError ''Entity name cannot be empty'' ''entityName'')
        \<and> BaseEntity_join name f t al lt b
            = (Inl (ValidationError ''Entity name cannot be empty'' ''entityName''), b)
        \<and> BaseEntity_select [name] b
            = (Inl (ValidationError ''Attribute name cannot be empty'' ''attribute''), b))\<close>
  by (simp add: BaseEntity_build_def build_new BaseEntity_join_def validateEntityName_def
        BaseEntity_select_def validateAttributeName_def)
    (simp add: BaseEntity_new_def)

theorem constructor_accepts_any_name_witness:
  \<open>BaseEntity_build (BaseEntity_new ''account'' []) = ''<fetch><entity name=""></entity></fetch>''
   \<and> BaseEntity_build (BaseEntity_new ''account'' ''   '') = ''<fetch><entity name="   "></entity></fetch>''
   \<and> BaseEntity_join [] ''accountid'' ''parentcustomerid'' None None (BaseEntity_new ''account'' [])
       = (Inl (ValidationError ''Entity name cannot be empty'' ''entityName''), BaseEntity_new ''account'' [])
   \<and> BaseEntity_join ''   '' ''accountid'' ''parentcustomerid'' None None (BaseEntity_new ''account'' [])
       = (Inl (ValidationError ''Entity name cannot be empty'' ''entityName''), BaseEntity_new ''account'' [])\<close>
proof -
  have t: "trim ''   '' = []"
    by (simp add: trim_Nil_iff isWhiteSpace_def)
  show ?thesis
    using constructor_accepts_any_name [of "''account''" "[]" "''accountid''" "''parentcustomerid''" None None "BaseEntity_new ''account'' []"]
          constructor_accepts_any_name [of "''account''" "''   ''" "''accountid''" "''parentcustomerid''" None None "BaseEntity_new ''account'' []"]
          t
    by simp
qed

section \<open>Aggregates without an attribute\<close>

text \<open>
  C10. For each of count, sum, avg, min and max and every alias: when the attribute
  argument is absent or the empty string, the call returns normally and appends an
  aggregate attribute named by the builder's \<open>entityName\<close> field followed by \<open>id\<close>. The
  name comes from that field (the subclass's), not from the entity name given to the
  constructor, and it is not passed to the attribute-name validator.
\<close>

theorem aggregate_default_attribute_name:
  assumes "(f, g) \<in> set [(BaseEntity_count, ''count''), (BaseEntity_sum, ''sum''),
                          (BaseEntity_avg, ''avg''), (BaseEntity_min, ''min''),
                          (BaseEntity_max, ''max'')]"
    and "attribute = None \<or> attribute = Some []"
  shows "f attribute alias b =
           (Inr (), b\<lparr>query := (query b)\<lparr>q_attributes := q_attributes (query b) @
              [\<lparr>attr_name = entityName b @ ''id'', attr_alias = alias,
                attr_aggregate = Some g\<rparr>]\<rparr>\<rparr>)"
  using assms
  by (auto simp: BaseEntity_count_def BaseEntity_sum_def BaseEntity_avg_def
        BaseEntity_min_def BaseEntity_max_def addAggregate_def validateAggregateType_def
        validAggregates_def truthyString_def Let_def)

theorem aggregate_default_attribute_name_witness:
  \<open>BaseEntity_count None None (BaseEntity_new ''contact'' ''account'') =
     (Inr (), (BaseEntity_new ''contact'' ''account'')
        \<lparr>query := (query (BaseEntity_new ''contact'' ''account''))
           \<lparr>q_attributes := [\<lparr>attr_name = ''contactid'', attr_alias = None,
                               attr_aggregate = Some ''count''\<rparr>]\<rparr>\<rparr>)
   \<and> BaseEntity_build (snd (BaseEntity_sum (Some []) (Some ''total'') (BaseEntity_new ''contact'' ''account'')))
       = ''<fetch><entity name="account"><attribute name="contactid" alias="total" aggregate="sum"/></entity></fetch>''\<close>
proof -
  have m1: "(BaseEntity_count, ''count'') \<in> set [(BaseEntity_count, ''count''), (BaseEntity_sum, ''sum''),
                          (BaseEntity_avg, ''avg''), (BaseEntity_min, ''min''),
                          (BaseEntity_max, ''max'')]"
    by simp
  have m2: "(BaseEntity_sum, ''sum'') \<in> set [(BaseEntity_count, ''count''), (BaseEntity_sum, ''sum''),
                          (BaseEntity_avg, ''avg''), (BaseEntity_min, ''min''),
                          (BaseEntity_max, ''max'')]"
    by simp
  show ?thesis
    using aggregate_default_attribute_name [OF m1, of None None "BaseEntity_new ''contact'' ''account''"]
          aggregate_default_attribute_name [OF m2, of "Some []" "Some ''total''" "BaseEntity_new ''contact'' ''account''"]
    by (simp add: BaseEntity_new_def BaseEntity_build_def build_def buildAttributes_def
          attributeStep_def escapeXml_def replaceAll_def Let_def)
qed

section \<open>Filter operators\<close>

lemma distinct_validOperators: "distinct validOperators"
  by (simp add: validOperators_def)

lemma length_validOperators: "length validOperators = 29"
  by (simp add: validOperators_def)

lemma card_validOperators: "card (set validOperators) = 29"
  using distinct_card [OF distinct_validOperators] length_validOperators by simp

lemma accepted_operators: "{x. validateFilterOperator x = Inr x} = set validOperators"
  by (auto simp: validateFilterOperator_def)

text \<open>
  C4, as stated, fails: the operator strings that \<open>validateFilterOperator\<close> accepts are
  not 28 in number.
\<close>

theorem operator_set_not_28: "card {x. validateFilterOperator x = Inr x} \<noteq> 28"
  by (simp add: accepted_operators card_validOperators)

text \<open>
  C4, amended. For every operator string, \<open>validateFilterOperator\<close> returns the string
  unchanged exactly when it is one of the 29 members of the fixed operator list, and
  throws a \<open>ValidationError\<close> otherwise: it accepts exactly 29 strings. With a valid
  attribute name, \<open>where(attr, op, v)\<close> appends a condition carrying \<open>op\<close> unchanged to
  the (lazily created) top-level and-group exactly when \<open>op\<close> is in the list, and throws
  that \<open>ValidationError\<close>, leaving the builder as it was, exactly when it is not.
\<close>

theorem operator_validation:
  "validateFilterOperator op =
     (if op \<in> set validOperators then Inr op
      else Inl (ValidationError (''Invalid filter operator: '' @ op) ''operator''))
   \<and> card {x. validateFilterOperator x = Inr x} = 29
   \<and> (validName a \<longrightarrow>
        BaseEntity_where a op v b =
          (if op \<in> set validOperators
           then (Inr (), b\<lparr>query := (query b)\<lparr>q_filters := Some (pushCondition
                   \<lparr>cond_attribute = a, cond_operator = op, cond_value = v\<rparr>
                   (case q_filters (query b) of None \<Rightarrow> FilterGroup And [] | Some f \<Rightarrow> f))\<rparr>\<rparr>)
           else (Inl (ValidationError (''Invalid filter operator: '' @ op) ''operator''), b)))"
  by (simp add: accepted_operators card_validOperators BaseEntity_where_def
        validateAttributeName_cases Let_def)
     (simp add: validateFilterOperator_def)

theorem operator_validation_witness:
  "validateFilterOperator ''next-year'' = Inr ''next-year''
   \<and> validateFilterOperator ''bogus-operator''
       = Inl (ValidationError ''Invalid filter operator: bogus-operator'' ''operator'')
   \<and> BaseEntity_where ''name'' ''eq'' (JScalar (JString ''Test'')) (BaseEntity_new ''account'' ''account'')
       = (Inr (), (BaseEntity_new ''account'' ''account'')
            \<lparr>query := (query (BaseEntity_new ''account'' ''account''))
               \<lparr>q_filters := Some (FilterGroup And
                  [Inl \<lparr>cond_attribute = ''name'', cond_operator = ''eq'',
                        cond_value = JScalar (JString ''Test'')\<rparr>])\<rparr>\<rparr>)
   \<and> BaseEntity_where ''name'' ''bogus-operator'' JUndefined (BaseEntity_new ''account'' ''account'')
       = (Inl (ValidationError ''Invalid filter operator: bogus-operator'' ''operator''),
          BaseEntity_new ''account'' ''account'')"
proof -
  have v: "validName ''name''"
    by (simp add: validName_iff isWhiteSpace_def)
  have m: "''next-year'' \<in> set validOperators" "''eq'' \<in> set validOperators"
    "''bogus-operator'' \<notin> set validOperators"
    by (simp_all add: validOperators_def)
  show ?thesis
    using operator_validation [of "''next-year''" "''name''" JUndefined "BaseEntity_new ''account'' ''account''"]
          operator_validation [of "''eq''" "''name''" "JScalar (JString ''Test'')" "BaseEntity_new ''account'' ''account''"]
          operator_validation [of "''bogus-operator''" "''name''" JUndefined "BaseEntity_new ''account'' ''account''"]
          v m
    by (simp add: pushCondition_def BaseEntity_new_def)
qed

section \<open>Root entity name\<close>

text \<open>
  C1 says that every string field is escaped before it is placed in the output, the root
  entity name in particular. The renderer escapes the name of a link entity, but places
  the root entity name in the output as it is: for the entity name \<open>a&b\<close> the output has
  \<open>name="a&b"\<close>, where escaping gives \<open>a&amp;b\<close>.
\<close>

theorem root_entity_name_not_escaped:
  \<open>BaseEntity_build (BaseEntity_new ''account'' ''a&b'')
     = ''<fetch><entity name="a&b"></entity></fetch>''
   \<and> escapeXml ''a&b'' = ''a&amp;b''
   \<and> buildLinkEntity (LinkEntity ''a&b'' ''x'' ''y'' None None [] None None)
     = ''<link-entity name="a&amp;b" from="x" to="y"></link-entity>''\<close>
  by (simp add: BaseEntity_build_def build_new escapeXml_Cons escapeXml_Nil escapeChar_def)

section \<open>Reading a rendered condition\<close>

lemma validOperators_no_quote: "op \<in> set validOperators \<Longrightarrow> CHR 0x22 \<notin> set op"
  by (auto simp: validOperators_def)

lemma readAttributes_end: "readAttributes ''/>'' = Some []"
  by (simp add: readAttributes.simps)

lemma readAttributes_attr:
  assumes k: "CHR ''='' \<notin> set k" and v: "CHR 0x22 \<notin> set v"
  shows "readAttributes ('' '' @ k @ [CHR ''='', CHR 0x22] @ v @ [CHR 0x22] @ rest)
           = map_option ((#) (k, v)) (readAttributes rest)"
proof -
  have tk: "takeWhile (\<lambda>x. x \<noteq> CHR ''='') (k @ [CHR ''='', CHR 0x22] @ v @ [CHR 0x22] @ rest) = k"
    using k by (induction k) auto
  have dk: "dropWhile (\<lambda>x. x \<noteq> CHR ''='') (k @ [CHR ''='', CHR 0x22] @ v @ [CHR 0x22] @ rest)
              = [CHR ''='', CHR 0x22] @ v @ [CHR 0x22] @ rest"
    using k by (induction k) auto
  have tv: "takeWhile (\<lambda>x. x \<noteq> CHR 0x22) (v @ [CHR 0x22] @ rest) = v"
    using v by (induction v) auto
  have dv: "dropWhile (\<lambda>x. x \<noteq> CHR 0x22) (v @ [CHR 0x22] @ rest) = [CHR 0x22] @ rest"
    using v by (induction v) auto
  show ?thesis
    apply (subst readAttributes.simps)
    using tk dk tv dv by (simp add: Let_def)
qed

lemma buildCondition_shape:
  "buildCondition c =
     ''<condition'' @
       ('' '' @ ''attribute'' @ [CHR ''='', CHR 0x22] @ escapeXml (cond_attribute c) @ [CHR 0x22] @
       ('' '' @ ''operator'' @ [CHR ''='', CHR 0x22] @ cond_operator c @ [CHR 0x22] @
       (case cond_value c of
          JUndefined \<Rightarrow> ''/>''
        | JNull \<Rightarrow> ''/>''
        | JScalar x \<Rightarrow> '' '' @ ''value'' @ [CHR ''='', CHR 0x22] @ escapeXml (toString x)
                         @ [CHR 0x22] @ ''/>'')))"
  by (simp add: buildCondition_def Let_def split: jsvalue.splits)

lemma readElement_prefix: "readElement name (''<'' @ name @ rest) = readAttributes rest"
  by (simp add: readElement_def)

lemma readElement_buildCondition:
  assumes "cond_operator c \<in> set validOperators"
  shows "readElement ''condition'' (buildCondition c) =
           Some ([(''attribute'', escapeXml (cond_attribute c)),
                  (''operator'', cond_operator c)] @ valueAttribute (cond_value c))"
proof -
  have q: "CHR 0x22 \<notin> set (cond_operator c)"
    using assms by (rule validOperators_no_quote)
  have tail: "readAttributes
       (case cond_value c of
          JUndefined \<Rightarrow> ''/>''
        | JNull \<Rightarrow> ''/>''
        | JScalar x \<Rightarrow> '' '' @ ''value'' @ [CHR ''='', CHR 0x22] @ escapeXml (toString x)
                         @ [CHR 0x22] @ ''/>'') = Some (valueAttribute (cond_value c))"
    by (cases "cond_value c")
       (simp_all add: valueAttribute_def readAttributes_end readAttributes_attr
          escapeXml_no_quote del: append.simps)
  have "readElement ''condition'' (buildCondition c) =
        readAttributes ('' '' @ ''attribute'' @ [CHR ''='', CHR 0x22] @ escapeXml (cond_attribute c) @ [CHR 0x22] @
       ('' '' @ ''operator'' @ [CHR ''='', CHR 0x22] @ cond_operator c @ [CHR 0x22] @
       (case cond_value c of
          JUndefined \<Rightarrow> ''/>''
        | JNull \<Rightarrow> ''/>''
        | JScalar x \<Rightarrow> '' '' @ ''value'' @ [CHR ''='', CHR 0x22] @ escapeXml (toString x)
                         @ [CHR 0x22] @ ''/>'')))"
    unfolding buildCondition_shape
    using readElement_prefix [of "''condition''"] by simp
  also have "\<dots> = Some ([(''attribute'', escapeXml (cond_attribute c)),
                  (''operator'', cond_operator c)] @ valueAttribute (cond_value c))"
    by (simp add: readAttributes_attr escapeXml_no_quote q tail del: append.simps)
  finally show ?thesis .
qed

lemma escapeXml_statecode: "escapeXml ''statecode'' = ''statecode''"
  by (simp add: escapeXml_Cons escapeXml_Nil escapeChar_def)

lemma foldl_append_step:
  "(\<And>acc x. f acc x = acc @ g x) \<Longrightarrow> foldl f acc xs = acc @ concat (map g xs)"
  by (induction xs arbitrary: acc) simp_all

lemma buildFilter_entries:
  \<open>buildFilter g =
     ''<filter type="'' @ groupTypeText (fg_type g) @ ''">''
       @ concat (map (\<lambda>entry. case entry of Inl c \<Rightarrow> buildCondition c | Inr g' \<Rightarrow> buildFilter g')
                   (fg_conditions g))
       @ ''</filter>''\<close>
proof (cases g)
  case (FilterGroup t cs)
  have \<open>foldl (\<lambda>xml condition. xml @
              (case condition of Inl c \<Rightarrow> buildCondition c | Inr g \<Rightarrow> buildFilter g))
           (''<filter type="'' @ groupTypeText t @ ''">'') cs
         = (''<filter type="'' @ groupTypeText t @ ''">'')
             @ concat (map (\<lambda>entry. case entry of Inl c \<Rightarrow> buildCondition c | Inr g' \<Rightarrow> buildFilter g') cs)\<close>
    by (rule foldl_append_step) simp
  then show ?thesis
    by (simp add: FilterGroup split: sum.splits)
qed

text \<open>
  C3. A rendered \<open><condition/>\<close> element (of a condition with a valid operator), read
  back, has the attributes \<open>attribute\<close> and \<open>operator\<close>, and a \<open>value\<close> attribute if and
  only if the condition's value is neither absent (undefined) nor null. For every other
  value the \<open>value\<close> attribute is present and holds the escaped text form of the value,
  which unescapes to the text form; the text forms of 0, false and the empty string are
  \<open>0\<close>, \<open>false\<close> and the empty string. \<open>where('statecode', 'eq', 0)\<close> renders \<open>value="0"\<close>.
\<close>

theorem condition_value_attribute:
  assumes "cond_operator c \<in> set validOperators"
  shows \<open>(let attrs = [(''attribute'', escapeXml (cond_attribute c)),
                       (''operator'', cond_operator c)]
                      @ (case cond_value c of
                           JUndefined \<Rightarrow> []
                         | JNull \<Rightarrow> []
                         | JScalar x \<Rightarrow> [(''value'', escapeXml (toString x))])
          in readElement ''condition'' (buildCondition c) = Some attrs
             \<and> (map_of attrs ''value'' = None
                  \<longleftrightarrow> cond_value c = JUndefined \<or> cond_value c = JNull)
             \<and> (\<forall>x. cond_value c = JScalar x \<longrightarrow>
                    map_of attrs ''value'' = Some (escapeXml (toString x))
                    \<and> referenceUnescape (escapeXml (toString x)) = toString x))
         \<and> toString (JNumber (num 0)) = ''0''
         \<and> toString (JBool False) = ''false''
         \<and> toString (JString []) = []
         \<and> BaseEntity_build (snd (BaseEntity_where ''statecode'' ''eq'' (JScalar (JNumber (num 0)))
                                    (BaseEntity_new ''account'' ''account'')))
             = ''<fetch><entity name="account"><filter type="and"><condition attribute="statecode" operator="eq" value="0"/></filter></entity></fetch>''\<close>
proof -
  have v: "validName ''statecode''"
    by (simp add: validName_iff isWhiteSpace_def)
  have ex: \<open>BaseEntity_build (snd (BaseEntity_where ''statecode'' ''eq'' (JScalar (JNumber (num 0)))
                                    (BaseEntity_new ''account'' ''account'')))
             = ''<fetch><entity name="account"><filter type="and"><condition attribute="statecode" operator="eq" value="0"/></filter></entity></fetch>''\<close>
    using v
    by (simp add: BaseEntity_where_def validateAttributeName_cases validateFilterOperator_def
          validOperators_def pushCondition_def BaseEntity_new_def BaseEntity_build_def
          build_def buildAttributes_def buildCondition_def groupTypeText_def Let_def
          escapeXml_statecode numToString_0 escapeXml_Cons escapeXml_Nil escapeChar_def)
  show ?thesis
    using readElement_buildCondition [OF assms] ex
    by (simp add: valueAttribute_def Let_def numToString_0 boolToString_def
          referenceUnescape_escapeXml split: jsvalue.splits)
qed

theorem condition_value_attribute_witness:
  \<open>readElement ''condition''
       (buildCondition \<lparr>cond_attribute = ''x value='', cond_operator = ''null'',
                         cond_value = JNull\<rparr>)
     = Some [(''attribute'', ''x value=''), (''operator'', ''null'')]
   \<and> readElement ''condition''
       (buildCondition \<lparr>cond_attribute = ''x'', cond_operator = ''not-null'',
                         cond_value = JUndefined\<rparr>)
     = Some [(''attribute'', ''x''), (''operator'', ''not-null'')]
   \<and> readElement ''condition''
       (buildCondition \<lparr>cond_attribute = ''statecode'', cond_operator = ''eq'',
                         cond_value = JScalar (JNumber (num 0))\<rparr>)
     = Some [(''attribute'', ''statecode''), (''operator'', ''eq''), (''value'', ''0'')]
   \<and> readElement ''condition''
       (buildCondition \<lparr>cond_attribute = ''x'', cond_operator = ''eq'',
                         cond_value = JScalar (JBool False)\<rparr>)
     = Some [(''attribute'', ''x''), (''operator'', ''eq''), (''value'', ''false'')]
   \<and> readElement ''condition''
       (buildCondition \<lparr>cond_attribute = ''x'', cond_operator = ''eq'',
                         cond_value = JScalar (JString [])\<rparr>)
     = Some [(''attribute'', ''x''), (''operator'', ''eq''), (''value'', [])]\<close>
proof -
  have m: "''null'' \<in> set validOperators" "''not-null'' \<in> set validOperators"
    "''eq'' \<in> set validOperators"
    by (simp_all add: validOperators_def)
  show ?thesis
    using condition_value_attribute
            [of "\<lparr>cond_attribute = ''x value='', cond_operator = ''null'', cond_value = JNull\<rparr>"]
          condition_value_attribute
            [of "\<lparr>cond_attribute = ''x'', cond_operator = ''not-null'', cond_value = JUndefined\<rparr>"]
          condition_value_attribute
            [of "\<lparr>cond_attribute = ''statecode'', cond_operator = ''eq'',
                  cond_value = JScalar (JNumber (num 0))\<rparr>"]
          condition_value_attribute
            [of "\<lparr>cond_attribute = ''x'', cond_operator = ''eq'',
                  cond_value = JScalar (JBool False)\<rparr>"]
          condition_value_attribute
            [of "\<lparr>cond_attribute = ''x'', cond_operator = ''eq'',
                  cond_value = JScalar (JString [])\<rparr>"]
          m
    by (simp add: Let_def escapeXml_Cons escapeXml_Nil escapeChar_def numToString_0
          boolToString_def)
qed

section \<open>Children of a link entity\<close>

lemma attributeStep_append: "attributeStep xml attr = xml @ attributeStep [] attr"
  by (simp add: attributeStep_def Let_def split: option.splits)

lemma foldl_attributeStep:
  "foldl attributeStep xml attrs = xml @ concat (map (attributeStep []) attrs)"
  by (rule foldl_append_step) (rule attributeStep_append)

lemma buildLinkEntity_children:
  "buildLinkEntity link =
     linkStartTag link
       @ concat (map (attributeStep []) (link_attributes link))
       @ (case link_filters link of None \<Rightarrow> [] | Some f \<Rightarrow> buildFilter f)
       @ concat (map buildLinkEntity (case link_links link of None \<Rightarrow> [] | Some ls \<Rightarrow> ls))
       @ ''</link-entity>''"
  by (cases link)
     (simp add: linkStartTag_def truthyString_def Let_def foldl_attributeStep
        foldl_append_step [where g = buildLinkEntity] split: option.splits)

lemma JoinBuilder_select_valid:
  "\<forall>n \<in> set names. validName n \<Longrightarrow>
     JoinBuilder_select names link =
       (Inr (), LinkEntity (link_name link) (link_from link) (link_to link)
                  (link_alias link) (link_linkType link)
                  (link_attributes link @ map plainAttribute names)
                  (link_filters link) (link_links link))"
  by (simp add: JoinBuilder_select_def mapValidated_valid)

lemma JoinBuilder_where_valid:
  "validName a \<Longrightarrow> op \<in> set validOperators \<Longrightarrow>
     JoinBuilder_where a op v link =
       (Inr (), LinkEntity (link_name link) (link_from link) (link_to link)
                  (link_alias link) (link_linkType link) (link_attributes link)
                  (Some (pushCondition
                     \<lparr>cond_attribute = a, cond_operator = op, cond_value = v\<rparr>
                     (case link_filters link of None \<Rightarrow> FilterGroup And [] | Some f \<Rightarrow> f)))
                  (link_links link))"
  by (simp add: JoinBuilder_where_def validateAttributeName_cases validateFilterOperator_def
        Let_def)

lemma JoinBuilder_select_where_commute:
  "snd (JoinBuilder_select names (snd (JoinBuilder_where a op v link)))
     = snd (JoinBuilder_where a op v (snd (JoinBuilder_select names link)))"
  by (simp add: JoinBuilder_select_def JoinBuilder_where_def Let_def split: sum.splits)

lemma JoinBuilder_selectAs_where_commute:
  "snd (JoinBuilder_selectAs n al (snd (JoinBuilder_where a op v link)))
     = snd (JoinBuilder_where a op v (snd (JoinBuilder_selectAs n al link)))"
  by (simp add: JoinBuilder_selectAs_def JoinBuilder_where_def Let_def split: sum.splits)

text \<open>
  C5. A rendered link entity is its start tag, then all of its own attributes, then its
  filter tree (if any), then each nested link entity, then its end tag: the three kinds
  of children come in this fixed order, and within the attributes, within the entries of
  a filter group and within the nested links the order of the lists, which is the order
  of insertion, is kept. The order in which the join builder's calls were made relative
  to each other does not matter: \<open>where\<close> before \<open>select\<close> (or \<open>selectAs\<close>) leaves the
  same link as \<open>select\<close> (or \<open>selectAs\<close>) before \<open>where\<close>, while each call appends at the
  end of its own list.
\<close>

theorem link_children_order:
  \<open>buildLinkEntity link =
     linkStartTag link
       @ concat (map (attributeStep []) (link_attributes link))
       @ (case link_filters link of None \<Rightarrow> [] | Some f \<Rightarrow> buildFilter f)
       @ concat (map buildLinkEntity (case link_links link of None \<Rightarrow> [] | Some ls \<Rightarrow> ls))
       @ ''</link-entity>''
   \<and> buildFilter g =
       ''<filter type="'' @ groupTypeText (fg_type g) @ ''">''
         @ concat (map (\<lambda>entry. case entry of Inl c \<Rightarrow> buildCondition c
                                  | Inr g' \<Rightarrow> buildFilter g') (fg_conditions g))
         @ ''</filter>''
   \<and> snd (JoinBuilder_select names (snd (JoinBuilder_where a op v link)))
       = snd (JoinBuilder_where a op v (snd (JoinBuilder_select names link)))
   \<and> snd (JoinBuilder_selectAs n al (snd (JoinBuilder_where a op v link)))
       = snd (JoinBuilder_where a op v (snd (JoinBuilder_selectAs n al link)))
   \<and> ((\<forall>x \<in> set names. validName x) \<longrightarrow>
        link_attributes (snd (JoinBuilder_select names link))
          = link_attributes link @ map plainAttribute names)
   \<and> (validName a \<and> op \<in> set validOperators \<longrightarrow>
        link_filters (snd (JoinBuilder_where a op v link))
          = Some (FilterGroup
                    (case link_filters link of None \<Rightarrow> And | Some f \<Rightarrow> fg_type f)
                    ((case link_filters link of None \<Rightarrow> [] | Some f \<Rightarrow> fg_conditions f)
                       @ [Inl \<lparr>cond_attribute = a, cond_operator = op, cond_value = v\<rparr>])))\<close>
proof -
  have sel: "(\<forall>x \<in> set names. validName x) \<longrightarrow>
        link_attributes (snd (JoinBuilder_select names link))
          = link_attributes link @ map plainAttribute names"
    by (simp add: JoinBuilder_select_valid)
  have whr: "validName a \<and> op \<in> set validOperators \<longrightarrow>
        link_filters (snd (JoinBuilder_where a op v link))
          = Some (FilterGroup
                    (case link_filters link of None \<Rightarrow> And | Some f \<Rightarrow> fg_type f)
                    ((case link_filters link of None \<Rightarrow> [] | Some f \<Rightarrow> fg_conditions f)
                       @ [Inl \<lparr>cond_attribute = a, cond_operator = op, cond_value = v\<rparr>]))"
    by (simp add: JoinBuilder_where_valid pushCondition_def split: option.splits)
  show ?thesis
    using buildLinkEntity_children [of link] buildFilter_entries [of g]
          JoinBuilder_select_where_commute [of names a op v link]
          JoinBuilder_selectAs_where_commute [of n al a op v link] sel whr
    by (simp only: simp_thms)
qed

theorem link_children_order_witness:
  \<open>buildLinkEntity
      (snd (JoinBuilder_select [''firstname'']
         (snd (JoinBuilder_where ''statecode'' ''eq'' (JScalar (JNumber (num 0)))
            (LinkEntity ''contact'' ''accountid'' ''parentcustomerid'' None None [] None
               (Some [LinkEntity ''task'' ''a'' ''b'' None None [] None None]))))))
     = ''<link-entity name="contact" from="accountid" to="parentcustomerid"><attribute name="firstname"/><filter type="and"><condition attribute="statecode" operator="eq" value="0"/></filter><link-entity name="task" from="a" to="b"></link-entity></link-entity>''
   \<and> snd (JoinBuilder_select [''firstname'']
         (snd (JoinBuilder_where ''statecode'' ''eq'' (JScalar (JNumber (num 0)))
            (LinkEntity ''contact'' ''accountid'' ''parentcustomerid'' None None [] None
               (Some [LinkEntity ''task'' ''a'' ''b'' None None [] None None])))))
     = snd (JoinBuilder_where ''statecode'' ''eq'' (JScalar (JNumber (num 0)))
         (snd (JoinBuilder_select [''firstname'']
            (LinkEntity ''contact'' ''accountid'' ''parentcustomerid'' None None [] None
               (Some [LinkEntity ''task'' ''a'' ''b'' None None [] None None])))))\<close>
proof -
  let ?l0 = "LinkEntity ''contact'' ''accountid'' ''parentcustomerid'' None None [] None
               (Some [LinkEntity ''task'' ''a'' ''b'' None None [] None None])"
  let ?l1 = "snd (JoinBuilder_select [''firstname'']
         (snd (JoinBuilder_where ''statecode'' ''eq'' (JScalar (JNumber (num 0))) ?l0)))"
  have v: "validName ''statecode''" "validName ''firstname''"
    by (simp_all add: validName_iff isWhiteSpace_def)
  have m: "''eq'' \<in> set validOperators"
    by (simp add: validOperators_def)
  have l1: "?l1 = LinkEntity ''contact'' ''accountid'' ''parentcustomerid'' None None
                    [plainAttribute ''firstname'']
                    (Some (FilterGroup And [Inl \<lparr>cond_attribute = ''statecode'',
                       cond_operator = ''eq'', cond_value = JScalar (JNumber (num 0))\<rparr>]))
                    (Some [LinkEntity ''task'' ''a'' ''b'' None None [] None None])"
    using v m by (simp add: JoinBuilder_select_valid JoinBuilder_where_valid pushCondition_def)
  have e: "escapeXml ''contact'' = ''contact''" "escapeXml ''accountid'' = ''accountid''"
    "escapeXml ''parentcustomerid'' = ''parentcustomerid''" "escapeXml ''task'' = ''task''"
    "escapeXml ''a'' = ''a''" "escapeXml ''b'' = ''b''" "escapeXml ''firstname'' = ''firstname''"
    "escapeXml ''0'' = ''0''"
    by (simp_all add: escapeXml_Cons escapeXml_Nil escapeChar_def)
  have r: \<open>buildLinkEntity ?l1
     = ''<link-entity name="contact" from="accountid" to="parentcustomerid"><attribute name="firstname"/><filter type="and"><condition attribute="statecode" operator="eq" value="0"/></filter><link-entity name="task" from="a" to="b"></link-entity></link-entity>''\<close>
    unfolding l1
    using link_children_order
            [of "LinkEntity ''contact'' ''accountid'' ''parentcustomerid'' None None
                    [plainAttribute ''firstname'']
                    (Some (FilterGroup And [Inl \<lparr>cond_attribute = ''statecode'',
                       cond_operator = ''eq'', cond_value = JScalar (JNumber (num 0))\<rparr>]))
                    (Some [LinkEntity ''task'' ''a'' ''b'' None None [] None None])"
                "FilterGroup And []" "[]" "''statecode''" "''eq''" JUndefined
                "''firstname''" "''f''"]
    by (simp add: linkStartTag_def truthyString_def plainAttribute_def attributeStep_def
          buildCondition_def groupTypeText_def Let_def e escapeXml_statecode numToString_0)
  show ?thesis
    using r JoinBuilder_select_where_commute
              [of "[''firstname'']" "''statecode''" "''eq''" "JScalar (JNumber (num 0))" ?l0]
    by simp
qed

end
